theory Spec2Isabelle
  imports Complex_Main
begin

section \<open>Errors\<close>

text \<open>
  Every \<^verbatim>\<open>assert\<close> of the source, a call with the wrong number of arguments, an
  arithmetic operator applied to \<^verbatim>\<open>None\<close>, a failed broadcast and the conversion of a
  traced value to a Python number raise; the model returns the exception as a value.
  \<open>AssertionError\<close> carries the message of the assertion.
\<close>

datatype error = AssertionError string | TypeError | ValueError | ConcretizationTypeError

definition bind_err :: "error + 'a \<Rightarrow> ('a \<Rightarrow> error + 'b) \<Rightarrow> error + 'b" where
  "bind_err m f = (case m of Inl e \<Rightarrow> Inl e | Inr x \<Rightarrow> f x)"

definition require :: "'a option \<Rightarrow> error + 'a" where
  \<comment> \<open>an operand of an arithmetic operator: \<^verbatim>\<open>None\<close> raises \<^verbatim>\<open>TypeError\<close>\<close>
  "require v = (case v of None \<Rightarrow> Inl TypeError | Some x \<Rightarrow> Inr x)"

definition call_two_positional :: "('s \<Rightarrow> error + 'r) \<Rightarrow> 'a \<Rightarrow> 'b \<Rightarrow> error + 'r" where
  \<comment> \<open>\<^verbatim>\<open>f(a, b)\<close> for a function \<^verbatim>\<open>f\<close> that takes one positional argument: Python raises
      \<^verbatim>\<open>TypeError\<close> before the body of \<^verbatim>\<open>f\<close> runs\<close>
  "call_two_positional f a b = Inl TypeError"

section \<open>Arrays\<close>

text \<open>
  A \<^verbatim>\<open>jax.Array\<close> of floats is its shape and its elements in row-major order. Floats
  are read as real numbers: rounding, infinities and NaN are outside the model.
\<close>

record tensor =
  shape :: "nat list"
  elems :: "real list"

definition wf_tensor :: "tensor \<Rightarrow> bool" where
  "wf_tensor t = (length (elems t) = prod_list (shape t))"

definition scalar :: "real \<Rightarrow> tensor" where
  "scalar x = \<lparr>shape = [], elems = [x]\<rparr>"

definition column :: "real list \<Rightarrow> tensor" where
  \<comment> \<open>an array of shape \<^verbatim>\<open>(batch_size, 1)\<close>\<close>
  "column xs = \<lparr>shape = [length xs, 1], elems = xs\<rparr>"

definition vector :: "real list \<Rightarrow> tensor" where
  \<comment> \<open>an array of shape \<^verbatim>\<open>(batch_size,)\<close>\<close>
  "vector xs = \<lparr>shape = [length xs], elems = xs\<rparr>"

subsection \<open>Broadcasting\<close>

text \<open>
  NumPy's rule, on the shapes read from the last axis: two axes agree when they are equal
  or one of them is 1; the shorter shape is padded with leading 1s.
\<close>

fun broadcast_rev :: "nat list \<Rightarrow> nat list \<Rightarrow> nat list option" where
  "broadcast_rev [] ys = Some ys"
| "broadcast_rev xs [] = Some xs"
| "broadcast_rev (x # xs) (y # ys) =
     (if x = y \<or> y = 1 then map_option ((#) x) (broadcast_rev xs ys)
      else if x = 1 then map_option ((#) y) (broadcast_rev xs ys)
      else None)"

definition broadcast_shapes :: "nat list \<Rightarrow> nat list \<Rightarrow> nat list option" where
  "broadcast_shapes a b = map_option rev (broadcast_rev (rev a) (rev b))"

fun expand :: "nat list \<Rightarrow> nat list \<Rightarrow> real list \<Rightarrow> real list" where
  "expand (s # ss) (t # ts) xs =
     (let k = prod_list ss;
          rows = map (\<lambda>i. expand ss ts (take k (drop (i * k) xs))) [0..<s]
      in if s = t then concat rows else concat (replicate t (concat rows)))"
| "expand ss ts xs = xs"

definition broadcast_to :: "tensor \<Rightarrow> nat list \<Rightarrow> real list" where
  "broadcast_to t target =
     expand (replicate (length target - length (shape t)) 1 @ shape t) target (elems t)"

text \<open>
  An operator of \<^verbatim>\<open>jax.numpy\<close> on two arrays: shapes that do not broadcast raise
  \<^verbatim>\<open>TypeError\<close> when the two arrays have one rank and \<^verbatim>\<open>ValueError\<close> otherwise.
\<close>

definition tbinop :: "(real \<Rightarrow> real \<Rightarrow> real) \<Rightarrow> tensor \<Rightarrow> tensor \<Rightarrow> error + tensor" where
  "tbinop f a b =
     (case broadcast_shapes (shape a) (shape b) of
        None \<Rightarrow> Inl (if length (shape a) = length (shape b) then TypeError else ValueError)
      | Some sh \<Rightarrow>
          Inr \<lparr>shape = sh, elems = map2 f (broadcast_to a sh) (broadcast_to b sh)\<rparr>)"

definition tmap :: "(real \<Rightarrow> real) \<Rightarrow> tensor \<Rightarrow> tensor" where
  "tmap f a = \<lparr>shape = shape a, elems = map f (elems a)\<rparr>"

subsection \<open>The operations the source uses\<close>

definition tadd :: "tensor \<Rightarrow> tensor \<Rightarrow> error + tensor" where
  "tadd = tbinop (+)"

definition tsub :: "tensor \<Rightarrow> tensor \<Rightarrow> error + tensor" where
  "tsub = tbinop (-)"

definition tmul :: "tensor \<Rightarrow> tensor \<Rightarrow> error + tensor" where
  "tmul = tbinop (*)"

definition tmaximum :: "tensor \<Rightarrow> tensor \<Rightarrow> error + tensor" where
  \<comment> \<open>\<^verbatim>\<open>jnp.maximum\<close>\<close>
  "tmaximum = tbinop max"

definition tneg :: "tensor \<Rightarrow> tensor" where
  "tneg = tmap uminus"

definition texp :: "tensor \<Rightarrow> tensor" where
  \<comment> \<open>\<^verbatim>\<open>jnp.exp\<close>\<close>
  "texp = tmap exp"

definition tsquare :: "tensor \<Rightarrow> tensor" where
  \<comment> \<open>\<^verbatim>\<open>x ** 2\<close>\<close>
  "tsquare = tmap (\<lambda>x. x ^ 2)"

definition clamp :: "real \<Rightarrow> real \<Rightarrow> real \<Rightarrow> real" where
  \<comment> \<open>\<^verbatim>\<open>jax.lax.clamp(lo, x, hi)\<close> on one element\<close>
  "clamp lo x hi = min (max x lo) hi"

definition tclamp :: "real \<Rightarrow> tensor \<Rightarrow> real \<Rightarrow> tensor" where
  \<comment> \<open>\<^verbatim>\<open>jax.lax.clamp\<close> with scalar bounds\<close>
  "tclamp lo a hi = tmap (\<lambda>x. clamp lo x hi) a"

definition mean :: "real list \<Rightarrow> real" where
  "mean xs = sum_list xs / real (length xs)"

definition tmean :: "tensor \<Rightarrow> real" where
  \<comment> \<open>\<^verbatim>\<open>x.mean()\<close>: the mean of all elements (of an empty array: NaN in JAX, 0 here)\<close>
  "tmean a = mean (elems a)"

definition reshape_col :: "tensor \<Rightarrow> tensor" where
  \<comment> \<open>\<^verbatim>\<open>x.reshape(-1, 1)\<close>\<close>
  "reshape_col a = \<lparr>shape = [length (elems a), 1], elems = elems a\<rparr>"

fun assert_equal_shape :: "tensor list \<Rightarrow> error + unit" where
  \<comment> \<open>\<^verbatim>\<open>chex.assert_equal_shape(inputs)\<close>: one argument, a sequence of arrays\<close>
  "assert_equal_shape [] = Inr ()"
| "assert_equal_shape (t # ts) =
     (if list_all (\<lambda>u. shape u = shape t) ts then Inr ()
      else Inl (AssertionError ''Arrays have different shapes''))"

section \<open>Random keys\<close>

text \<open>
  \<^verbatim>\<open>jax.random.split\<close> is a function of the key alone. A key is modelled as the seed it
  was created from and the path of splits that led to it: \<open>Split k n i\<close> is the \<open>i\<close>-th
  of the \<open>n\<close> keys \<^verbatim>\<open>jax.random.split(k, n)\<close> returns.
\<close>

datatype prng_key = PRNGKey int | Split prng_key nat nat

definition random_split :: "prng_key \<Rightarrow> nat \<Rightarrow> prng_key list" where
  \<comment> \<open>\<^verbatim>\<open>jax.random.split(key, num)\<close>\<close>
  "random_split k n = map (Split k n) [0..<n]"

section \<open>Library objects\<close>

text \<open>
  The objects of \<^verbatim>\<open>distrax\<close>, \<^verbatim>\<open>optax\<close>, \<^verbatim>\<open>flax\<close> and \<^verbatim>\<open>jax\<close> that the source calls,
  each as the record of the operations called on it.
\<close>

record distribution =
  sample :: "prng_key \<Rightarrow> tensor"
  log_prob :: "tensor \<Rightarrow> tensor"
  mode :: tensor
  stddev :: tensor
  entropy :: tensor

definition sample_and_log_prob :: "distribution \<Rightarrow> prng_key \<Rightarrow> tensor \<times> tensor" where
  \<comment> \<open>\<^verbatim>\<open>dist.sample_and_log_prob(seed=k)\<close>: a sample and the log-probability of that sample\<close>
  "sample_and_log_prob d k = (let a = sample d k in (a, log_prob d a))"

record ('p, 'o) gradient_transformation =
  opt_init :: "'p \<Rightarrow> 'o"
  opt_update :: "'p \<Rightarrow> 'o \<Rightarrow> 'p \<Rightarrow> 'p \<times> 'o"

record ('p, 'o, 'r) train_state =
  step :: int
  apply_fn :: "'p \<Rightarrow> tensor \<Rightarrow> 'r"
  params :: 'p
  tx :: "('p, 'o) gradient_transformation"
  opt_state :: 'o

definition create :: "('p \<Rightarrow> tensor \<Rightarrow> 'r) \<Rightarrow> 'p \<Rightarrow> ('p, 'o) gradient_transformation
    \<Rightarrow> ('p, 'o, 'r) train_state" where
  \<comment> \<open>\<^verbatim>\<open>TrainState.create(apply_fn=..., params=..., tx=...)\<close>\<close>
  "create f p t = \<lparr>step = 0, apply_fn = f, params = p, tx = t, opt_state = opt_init t p\<rparr>"

definition apply_gradients :: "('p::plus, 'o, 'r) train_state \<Rightarrow> 'p \<Rightarrow> ('p, 'o, 'r) train_state" where
  \<comment> \<open>\<^verbatim>\<open>state.apply_gradients(grads=g)\<close>; \<^verbatim>\<open>optax.apply_updates\<close> adds the updates to the parameters\<close>
  "apply_gradients state g =
     (let (updates, new_opt_state) = opt_update (tx state) g (opt_state state) (params state);
          new_params = params state + updates
      in state\<lparr>step := step state + 1, params := new_params, opt_state := new_opt_state\<rparr>)"

text \<open>
  Tracing. \<^verbatim>\<open>jax.value_and_grad\<close> does not call its function on the parameters but on
  tracers that stand for them, and under the \<^verbatim>\<open>jax.jit\<close> of \<^verbatim>\<open>_update_inner\<close> the arrays
  of the container and of the rollout are tracers as well. Every array computed from a
  tracer is a tracer, and \<^verbatim>\<open>float(x)\<close> of a tracer raises, while \<^verbatim>\<open>float(x)\<close> of a
  concrete scalar array is that scalar. A value is tagged with what it is; arithmetic is
  done on the value it stands for.
\<close>

datatype 'a traced = Concrete 'a | Tracer 'a

fun tval :: "'a traced \<Rightarrow> 'a" where
  "tval (Concrete x) = x"
| "tval (Tracer x) = x"

fun computed_from :: "'a traced \<Rightarrow> 'b \<Rightarrow> 'b traced" where
  \<comment> \<open>the value \<open>y\<close>, computed from a concrete value or from a tracer\<close>
  "computed_from (Concrete x) y = Concrete y"
| "computed_from (Tracer x) y = Tracer y"

fun py_float :: "real traced \<Rightarrow> error + real" where
  \<comment> \<open>\<^verbatim>\<open>float(x)\<close> of a scalar array\<close>
  "py_float (Concrete x) = Inr x"
| "py_float (Tracer x) = Inl ConcretizationTypeError"

text \<open>
  \<^verbatim>\<open>jax.value_and_grad(f, has_aux=True)(p)\<close> runs \<open>f\<close> on the tracer of \<open>p\<close>, so an
  exception of \<open>f\<close> is an exception of the call, and returns the value of \<open>f\<close>, its
  auxiliary output and the gradient of its first output at \<open>p\<close>. Differentiation is the
  library's: the model takes it as the parameter \<open>grad\<close>, which receives the scalar loss
  as a function of the parameters (read as 0 at parameters where \<open>f\<close> raises) and the
  point \<open>p\<close>.
\<close>

type_synonym 'p grad_fn = "('p \<Rightarrow> real) \<Rightarrow> 'p \<Rightarrow> 'p"

definition loss_value :: "error + real \<times> 'a \<Rightarrow> real" where
  "loss_value r = (case r of Inl e \<Rightarrow> 0 | Inr (v, aux) \<Rightarrow> v)"

definition value_and_grad :: "'p grad_fn \<Rightarrow> ('p traced \<Rightarrow> error + real \<times> 'a) \<Rightarrow> 'p
    \<Rightarrow> error + (real \<times> 'a) \<times> 'p" where
  "value_and_grad grad f p =
     bind_err (f (Tracer p)) (\<lambda>va. Inr (va, grad (\<lambda>q. loss_value (f (Tracer q))) p))"

definition device_get :: "'a \<Rightarrow> 'a" where
  \<comment> \<open>\<^verbatim>\<open>jax.device_get\<close>: the same value, in host memory\<close>
  "device_get x = x"

type_synonym log_dict = "string \<rightharpoonup> real"

section \<open>Action sampling\<close>

definition jit_sample_action :: "('p, 'o, distribution) train_state \<Rightarrow> tensor \<Rightarrow> prng_key
    \<Rightarrow> tensor \<times> prng_key" where
  \<comment> \<open>\<^verbatim>\<open>_sample_action\<close>\<close>
  "jit_sample_action policy observation key =
     (let ks = random_split key 2; key' = ks ! 0; action_key = ks ! 1;
          dist = apply_fn policy (params policy) observation;
          action = sample dist action_key
      in (action, key'))"

definition jit_eval_action :: "('p, 'o, distribution) train_state \<Rightarrow> tensor \<Rightarrow> tensor" where
  \<comment> \<open>\<^verbatim>\<open>_eval_action\<close>\<close>
  "jit_eval_action policy observation =
     (let dist = apply_fn policy (params policy) observation in mode dist)"

definition jit_sample_action_dist_and_value :: "('p, 'o, distribution) train_state
    \<Rightarrow> ('v, 'w, tensor) train_state \<Rightarrow> tensor \<Rightarrow> prng_key
    \<Rightarrow> tensor \<times> tensor \<times> tensor \<times> tensor \<times> tensor \<times> prng_key" where
  \<comment> \<open>\<^verbatim>\<open>_sample_action_dist_and_value\<close>\<close>
  "jit_sample_action_dist_and_value policy value_function observation key =
     (let ks = random_split key 2; key' = ks ! 0; action_key = ks ! 1;
          dist = apply_fn policy (params policy) observation;
          (action, action_log_prob) = sample_and_log_prob dist action_key;
          v = apply_fn value_function (params value_function) observation
      in (action, action_log_prob, mode dist, stddev dist, v, key'))"

section \<open>Configuration, rollouts and the training state\<close>

record ('pc, 'vc) mtppo_config =
  num_tasks :: int
  gamma :: real
  policy_config :: 'pc
  vf_config :: 'vc
  clip_eps :: real
  clip_vf_loss :: bool
  entropy_coefficient :: real
  vf_coefficient :: real
  target_kl :: "real option"

definition MTPPOConfig :: "int \<Rightarrow> real \<Rightarrow> 'pc \<Rightarrow> 'vc \<Rightarrow> ('pc, 'vc) mtppo_config" where
  \<comment> \<open>the defaults of \<^verbatim>\<open>MTPPOConfig\<close>; \<^verbatim>\<open>num_tasks\<close> and \<^verbatim>\<open>gamma\<close> are the base class's\<close>
  "MTPPOConfig n g pc vc =
     \<lparr>num_tasks = n, gamma = g, policy_config = pc, vf_config = vc,
      clip_eps = 0.2, clip_vf_loss = True, entropy_coefficient = 5 / 1000,
      vf_coefficient = 0, target_kl = None\<rparr>"

text \<open>
  Modelled from the spec: \<^verbatim>\<open>mtrl.types.Rollout\<close> and \<^verbatim>\<open>mtrl.types.ReplayBufferSamples\<close>
  are not among the source files. Section 3 of the specification gives a rollout as a
  batch of observations, actions, log-probabilities, value estimates, advantages and
  returns, of which log-probabilities, advantages and returns can be absent; a replay
  sample is any other kind of batch. The field \<^verbatim>\<open>values\<close> of the source is \<open>values'\<close>.
\<close>

record rollout =
  observations :: tensor
  actions :: tensor
  log_probs :: "tensor option"
  values' :: tensor
  advantages :: "tensor option"
  returns :: "tensor option"

datatype 'b batch = Rollout rollout | ReplayBufferSamples 'b

record ('p, 'o, 'v, 'w) mtppo =
  num_tasks :: int
  policy :: "('p, 'o, distribution) train_state"
  value_function :: "('v, 'w, tensor) train_state"
  key :: prng_key
  gamma :: real
  clip_eps :: real
  clip_vf_loss :: bool
  entropy_coefficient :: real
  vf_coefficient :: real
  target_kl :: "real option"

section \<open>The methods of \<^verbatim>\<open>MTPPO\<close>\<close>

definition sample_action :: "('p, 'o, 'v, 'w) mtppo \<Rightarrow> tensor \<Rightarrow> ('p, 'o, 'v, 'w) mtppo \<times> tensor" where
  "sample_action self observation =
     (let (action, key') = jit_sample_action (policy self) observation (key self)
      in (self\<lparr>key := key'\<rparr>, device_get action))"

definition sample_action_dist_and_value :: "('p, 'o, 'v, 'w) mtppo \<Rightarrow> tensor
    \<Rightarrow> ('p, 'o, 'v, 'w) mtppo \<times> tensor \<times> tensor \<times> tensor \<times> tensor \<times> tensor" where
  "sample_action_dist_and_value self observation =
     (let (action, lp, mean', std, v, key') =
            jit_sample_action_dist_and_value (policy self) (value_function self) observation (key self)
      in (self\<lparr>key := key'\<rparr>, device_get (action, lp, mean', std, v)))"

definition eval_action :: "('p, 'o, 'v, 'w) mtppo \<Rightarrow> tensor \<Rightarrow> tensor" where
  "eval_action self observation = device_get (jit_eval_action (policy self) observation)"

definition policy_loss :: "('p, 'o, 'v, 'w) mtppo \<Rightarrow> rollout \<Rightarrow> prng_key \<Rightarrow> 'p traced
    \<Rightarrow> error + real \<times> log_dict" where
  \<comment> \<open>the closure \<^verbatim>\<open>policy_loss\<close> of \<^verbatim>\<open>update_policy\<close>, with the variables it captures;
      the returned pair is built left to right, the loss first, then the two \<^verbatim>\<open>float\<close> calls\<close>
  "policy_loss self data policy_loss_key ps =
     (let action_dist = apply_fn (policy self) (tval ps) (observations data);
          (_, new_log_probs) = sample_and_log_prob action_dist policy_loss_key
      in bind_err (require (log_probs data)) (\<lambda>old_log_probs.
         bind_err (tsub (reshape_col new_log_probs) old_log_probs) (\<lambda>log_ratio.
         let ratio = texp log_ratio
         in bind_err (require (advantages data)) (\<lambda>adv.
            bind_err (tmul (tneg adv) ratio) (\<lambda>pg_loss1.
            bind_err (tmul (tneg adv)
                        (tclamp (1 - clip_eps self) ratio (1 + clip_eps self))) (\<lambda>pg_loss2.
            bind_err (tmaximum pg_loss1 pg_loss2) (\<lambda>pg.
            let pg_loss = computed_from ps (tmean pg);
                entropy_loss = computed_from ps (tmean (entropy action_dist));
                total = tval pg_loss - entropy_coefficient self * tval entropy_loss
            in bind_err (py_float entropy_loss) (\<lambda>logged_entropy.
               bind_err (py_float pg_loss) (\<lambda>logged_pg.
               Inr (total,
                    [''losses/entropy_loss'' \<mapsto> logged_entropy,
                     ''losses/policy_loss'' \<mapsto> logged_pg]))))))))))"

definition update_policy :: "'p grad_fn \<Rightarrow> ('p::plus, 'o, 'v, 'w) mtppo \<Rightarrow> rollout
    \<Rightarrow> error + ('p, 'o, 'v, 'w) mtppo \<times> log_dict" where
  "update_policy grad self data =
     (let ks = random_split (key self) 2; key' = ks ! 0; policy_loss_key = ks ! 1
      in bind_err (value_and_grad grad (policy_loss self data policy_loss_key)
                     (params (policy self)))
           (\<lambda>((_, logs), policy_grads).
              let policy' = apply_gradients (policy self) policy_grads
              in Inr (self\<lparr>policy := policy', key := key'\<rparr>, logs)))"

definition value_function_loss_body :: "('p, 'o, 'v, 'w) mtppo \<Rightarrow> rollout \<Rightarrow> 'v traced
    \<Rightarrow> tensor \<Rightarrow> error + real \<times> log_dict" where
  \<comment> \<open>the statements of the closure \<^verbatim>\<open>value_function_loss\<close> after the assertion, with
      \<^verbatim>\<open>new_values\<close> as computed before it\<close>
  "value_function_loss_body self data ps new_values =
     bind_err (require (returns data)) (\<lambda>rets.
     bind_err
       (if clip_vf_loss self then
          bind_err (tsub new_values rets) (\<lambda>d.
          let vf_loss_unclipped = tsquare d
          in bind_err (tsub new_values (values' data)) (\<lambda>dv.
             bind_err (tadd (values' data)
                         (tclamp (- clip_eps self) dv (clip_eps self))) (\<lambda>v_clipped.
             bind_err (tsub v_clipped rets) (\<lambda>dc.
             let vf_loss_clipped = tsquare dc
             in bind_err (tmaximum vf_loss_unclipped vf_loss_clipped) (\<lambda>m.
                Inr (0.5 * tmean m))))))
        else
          bind_err (tsub new_values rets) (\<lambda>d. Inr (0.5 * tmean (tsquare d))))
       (\<lambda>vf_loss.
          bind_err (py_float (computed_from ps vf_loss)) (\<lambda>logged_loss.
          bind_err (py_float (computed_from ps (tmean new_values))) (\<lambda>logged_values.
          Inr (vf_coefficient self * vf_loss,
               [''losses/value_function'' \<mapsto> logged_loss,
                ''losses/values'' \<mapsto> logged_values])))))"

definition value_function_loss :: "('p, 'o, 'v, 'w) mtppo \<Rightarrow> rollout \<Rightarrow> 'v traced
    \<Rightarrow> error + real \<times> log_dict" where
  \<comment> \<open>the closure \<^verbatim>\<open>value_function_loss\<close> of \<^verbatim>\<open>update_value_function\<close>: the source
      calls \<^verbatim>\<open>chex.assert_equal_shape(new_values, data.returns)\<close>, two positional arguments\<close>
  "value_function_loss self data ps =
     (let new_values = apply_fn (value_function self) (tval ps) (observations data)
      in bind_err (call_two_positional assert_equal_shape new_values (returns data)) (\<lambda>_.
         value_function_loss_body self data ps new_values))"

definition update_value_function :: "'v grad_fn \<Rightarrow> ('p, 'o, 'v::plus, 'w) mtppo \<Rightarrow> rollout
    \<Rightarrow> error + ('p, 'o, 'v, 'w) mtppo \<times> log_dict" where
  "update_value_function grad self data =
     bind_err (value_and_grad grad (value_function_loss self data)
                 (params (value_function self)))
       (\<lambda>((_, logs), vf_grads).
          let value_function' = apply_gradients (value_function self) vf_grads
          in Inr (self\<lparr>value_function := value_function'\<rparr>, logs))"

definition update_inner :: "'p grad_fn \<Rightarrow> 'v grad_fn \<Rightarrow> ('p::plus, 'o, 'v::plus, 'w) mtppo
    \<Rightarrow> rollout \<Rightarrow> error + ('p, 'o, 'v, 'w) mtppo \<times> log_dict" where
  \<comment> \<open>\<^verbatim>\<open>_update_inner\<close>\<close>
  "update_inner pgrad vgrad self data =
     bind_err (update_policy pgrad self data) (\<lambda>(self1, policy_logs).
     bind_err (update_value_function vgrad self1 data) (\<lambda>(self2, vf_logs).
     Inr (self2, policy_logs ++ vf_logs)))"

definition update :: "'p grad_fn \<Rightarrow> 'v grad_fn \<Rightarrow> ('p::plus, 'o, 'v::plus, 'w) mtppo
    \<Rightarrow> 'b batch \<Rightarrow> error + ('p, 'o, 'v, 'w) mtppo \<times> log_dict" where
  "update pgrad vgrad self data =
     (case data of
        ReplayBufferSamples b \<Rightarrow>
          Inl (AssertionError ''MTPPO does not support replay buffer samples.'')
      | Rollout r \<Rightarrow>
          if log_probs r = None then
            Inl (AssertionError ''Rollout policy log probs must have been recorded.'')
          else if advantages r = None then
            Inl (AssertionError ''GAE must be enabled for MTPPO.'')
          else if returns r = None then
            Inl (AssertionError ''Returns must be computed for MTPPO.'')
          else update_inner pgrad vgrad self r)"

section \<open>Initialization\<close>

text \<open>
  Modelled from the spec: \<^verbatim>\<open>mtrl.envs.EnvConfig\<close>, \<^verbatim>\<open>mtrl.rl.networks\<close> and
  \<^verbatim>\<open>mtrl.config.networks\<close> are not among the source files. Section 6 of the specification
  gives an environment description as an observation space and an action space, a network
  as \<^verbatim>\<open>init(key, dummy_batch)\<close> and \<^verbatim>\<open>apply(params, observation)\<close>, and an optimizer as
  an opaque state with its update. They are the fields of \<open>collaborators\<close>, together with
  the draw of one sample from a space, which advances the generator \<open>'g\<close> of that space.
  The \<^verbatim>\<open>print\<close> calls of \<^verbatim>\<open>initialize\<close> write to the console and return nothing; they
  are left out.
\<close>

datatype space =
  Box (low: "real list") (high: "real list") (box_shape: "nat list")
| Discrete nat
| MultiDiscrete "nat list"
| MultiBinary nat

fun is_Box :: "space \<Rightarrow> bool" where
  \<comment> \<open>\<^verbatim>\<open>isinstance(s, gym.spaces.Box)\<close>\<close>
  "is_Box (Box l h sh) = True"
| "is_Box s = False"

record env_config =
  observation_space :: space
  action_space :: space

record ('p, 'r) module =
  net_init :: "prng_key \<Rightarrow> tensor \<Rightarrow> 'p"
  net_apply :: "'p \<Rightarrow> tensor \<Rightarrow> 'r"

record ('pc, 'vc, 'p, 'o, 'v, 'w, 'g) collaborators =
  ContinuousActionPolicy :: "nat \<Rightarrow> 'pc \<Rightarrow> ('p, distribution) module"
  ValueFunction :: "'vc \<Rightarrow> ('v, tensor) module"
  policy_optimizer :: "'pc \<Rightarrow> ('p, 'o) gradient_transformation"
  vf_optimizer :: "'vc \<Rightarrow> ('v, 'w) gradient_transformation"
  space_sample :: "space \<Rightarrow> 'g \<Rightarrow> tensor \<times> 'g"

fun sample_n :: "('g \<Rightarrow> tensor \<times> 'g) \<Rightarrow> nat \<Rightarrow> 'g \<Rightarrow> tensor list" where
  \<comment> \<open>\<^verbatim>\<open>[space.sample() for _ in range(n)]\<close>\<close>
  "sample_n draw 0 g = []"
| "sample_n draw (Suc n) g = (let (x, g') = draw g in x # sample_n draw n g')"

definition stack :: "tensor list \<Rightarrow> tensor" where
  \<comment> \<open>\<^verbatim>\<open>jnp.array\<close> of a list of arrays of one shape\<close>
  "stack ts =
     (case ts of
        [] \<Rightarrow> \<lparr>shape = [0], elems = []\<rparr>
      | t # _ \<Rightarrow> \<lparr>shape = length ts # shape t, elems = concat (map elems ts)\<rparr>)"

definition initialize :: "('pc, 'vc, 'p, 'o, 'v, 'w, 'g) collaborators \<Rightarrow> 'g
    \<Rightarrow> ('pc, 'vc) mtppo_config \<Rightarrow> env_config \<Rightarrow> int \<Rightarrow> error + ('p, 'o, 'v, 'w) mtppo" where
  "initialize lib g config env seed =
     (if \<not> is_Box (action_space env) then
        Inl (AssertionError ''Non-box spaces currently not supported.'')
      else if \<not> is_Box (observation_space env) then
        Inl (AssertionError ''Non-box spaces currently not supported.'')
      else
        let master_key = PRNGKey seed;
            ks = random_split master_key 3;
            algorithm_key = ks ! 0; actor_init_key = ks ! 1; vf_init_key = ks ! 2;
            dummy_obs = stack (sample_n (space_sample lib (observation_space env))
                                 (nat (mtppo_config.num_tasks config)) g);
            policy_net = ContinuousActionPolicy lib (prod_list (box_shape (action_space env)))
                           (policy_config config);
            policy' = create (net_apply policy_net)
                        (net_init policy_net actor_init_key dummy_obs)
                        (policy_optimizer lib (policy_config config));
            vf_net = ValueFunction lib (vf_config config);
            value_function' = create (net_apply vf_net)
                        (net_init vf_net vf_init_key dummy_obs)
                        (vf_optimizer lib (vf_config config))
        in Inr \<lparr>num_tasks = mtppo_config.num_tasks config,
                policy = policy',
                value_function = value_function',
                key = algorithm_key,
                gamma = mtppo_config.gamma config,
                clip_eps = mtppo_config.clip_eps config,
                clip_vf_loss = mtppo_config.clip_vf_loss config,
                entropy_coefficient = mtppo_config.entropy_coefficient config,
                vf_coefficient = mtppo_config.vf_coefficient config,
                target_kl = mtppo_config.target_kl config\<rparr>)"

section \<open>The dummy batch\<close>

text \<open>
  The value that \<^verbatim>\<open>initialize\<close> binds to \<^verbatim>\<open>dummy_obs\<close>, named so that theorems can speak of it.
\<close>

definition dummy_obs :: "('pc, 'vc, 'p, 'o, 'v, 'w, 'g) collaborators \<Rightarrow> 'g
    \<Rightarrow> ('pc, 'vc) mtppo_config \<Rightarrow> env_config \<Rightarrow> tensor" where
  \<comment> \<open>the value \<^verbatim>\<open>initialize\<close> binds to \<^verbatim>\<open>dummy_obs\<close>\<close>
  "dummy_obs lib g config env =
     stack (sample_n (space_sample lib (observation_space env))
              (nat (mtppo_config.num_tasks config)) g)"

section \<open>The formulas of the specification\<close>

text \<open>
  The losses as the specification words them, on the per-sample values of a batch: plain
  lists of reals, with no shapes and no broadcasting. They are compared below with what
  the closures of the source compute before they convert their logs.
\<close>

definition spec_surrogate :: "real \<Rightarrow> real \<Rightarrow> real \<Rightarrow> real \<Rightarrow> real" where
  "spec_surrogate eps advantage old_log_prob new_log_prob =
     (let ratio = exp (new_log_prob - old_log_prob)
      in max (- advantage * ratio) (- advantage * clamp (1 - eps) ratio (1 + eps)))"

definition spec_policy_total_loss :: "real \<Rightarrow> real \<Rightarrow> real list \<Rightarrow> real list \<Rightarrow> real list
    \<Rightarrow> real list \<Rightarrow> real" where
  "spec_policy_total_loss eps c advs olds news ents =
     mean (map (\<lambda>(a, old, new). spec_surrogate eps a old new) (zip advs (zip olds news)))
       - c * mean ents"

definition fresh_log_probs :: "distribution \<Rightarrow> prng_key \<Rightarrow> real list" where
  "fresh_log_probs d k = elems (log_prob d (sample d k))"

definition spec_policy_objective :: "('p, 'o, 'v, 'w) mtppo \<Rightarrow> tensor \<Rightarrow> real list \<Rightarrow> real list
    \<Rightarrow> prng_key \<Rightarrow> 'p \<Rightarrow> real" where
  "spec_policy_objective self obs advs olds k q =
     (let d = apply_fn (policy self) q obs
      in spec_policy_total_loss (clip_eps self) (entropy_coefficient self) advs olds
           (fresh_log_probs d k) (elems (entropy d)))"

definition spec_value_loss :: "bool \<Rightarrow> real \<Rightarrow> real list \<Rightarrow> real list \<Rightarrow> real list \<Rightarrow> real" where
  "spec_value_loss clip eps news olds rets =
     (if clip then
        0.5 * mean (map (\<lambda>(new, old, ret).
                      let clipped_value = old + clamp (- eps) (new - old) eps
                      in max ((new - ret) ^ 2) ((clipped_value - ret) ^ 2))
                    (zip news (zip olds rets)))
      else 0.5 * mean (map (\<lambda>(new, ret). (new - ret) ^ 2) (zip news rets)))"

section \<open>A concrete instance\<close>

text \<open>
  A one-parameter Gaussian policy and a linear value function on a batch of two
  observations, with a central difference in place of automatic differentiation and
  gradient descent of step 1/10 as the optimizer. \<open>ex_state\<close> is what \<open>initialize\<close>
  returns for the default configuration; \<open>ex_rollout\<close> holds every field as a column of
  the batch, \<open>ex_bad_rollout\<close> holds its returns as a vector instead. The theorems below
  are evaluated on this instance.
\<close>

primrec key_noise :: "prng_key \<Rightarrow> real" where
  "key_noise (PRNGKey seed) = real_of_int seed"
| "key_noise (Split k n i) = key_noise k + real i"

definition ex_policy_apply :: "real \<Rightarrow> tensor \<Rightarrow> distribution" where
  "ex_policy_apply p obs =
     \<lparr>sample = (\<lambda>k. tmap (\<lambda>x. p * x + key_noise k) obs),
      log_prob = (\<lambda>a. vector (map2 (\<lambda>x y. - ((x - p * y) ^ 2) / 2) (elems a) (elems obs))),
      mode = tmap (\<lambda>x. p * x) obs,
      stddev = tmap (\<lambda>x. 1) obs,
      entropy = vector (map (\<lambda>x. p) (elems obs))\<rparr>"

definition ex_vf_apply :: "real \<Rightarrow> tensor \<Rightarrow> tensor" where
  "ex_vf_apply v obs = tmap (\<lambda>x. v * x) obs"

definition ex_tx :: "(real, unit) gradient_transformation" where
  "ex_tx = \<lparr>opt_init = (\<lambda>p. ()), opt_update = (\<lambda>g s p. (- g / 10, ()))\<rparr>"

definition ex_grad :: "real grad_fn" where
  "ex_grad f p = (f (p + 1) - f (p - 1)) / 2"

fun ex_space_sample :: "space \<Rightarrow> nat \<Rightarrow> tensor \<times> nat" where
  "ex_space_sample (Box l h sh) g = (\<lparr>shape = sh, elems = map (\<lambda>x. x + real g) l\<rparr>, Suc g)"
| "ex_space_sample s g = (scalar (real g), Suc g)"

definition ex_lib :: "(unit, unit, real, unit, real, unit, nat) collaborators" where
  "ex_lib =
     \<lparr>ContinuousActionPolicy = (\<lambda>n pc. \<lparr>net_init = (\<lambda>k obs. 0), net_apply = ex_policy_apply\<rparr>),
      ValueFunction = (\<lambda>vc. \<lparr>net_init = (\<lambda>k obs. 1), net_apply = ex_vf_apply\<rparr>),
      policy_optimizer = (\<lambda>pc. ex_tx),
      vf_optimizer = (\<lambda>vc. ex_tx),
      space_sample = ex_space_sample\<rparr>"

definition ex_env :: env_config where
  "ex_env = \<lparr>observation_space = Box [- 1] [1] [1], action_space = Box [- 1, - 1] [1, 1] [2]\<rparr>"

definition ex_state :: "(real, unit, real, unit) mtppo" where
  "ex_state =
     \<lparr>num_tasks = 2,
      policy = create ex_policy_apply 0 ex_tx,
      value_function = create ex_vf_apply 1 ex_tx,
      key = Split (PRNGKey 1) 3 0,
      gamma = 99 / 100, clip_eps = 0.2, clip_vf_loss = True,
      entropy_coefficient = 5 / 1000, vf_coefficient = 0, target_kl = None\<rparr>"

definition ex_rollout :: rollout where
  "ex_rollout =
     \<lparr>observations = column [1, 2],
      actions = column [3, 4],
      log_probs = Some (column [- 2, - 2]),
      values' = column [0, 0],
      advantages = Some (column [1, - 1]),
      returns = Some (column [1, 3])\<rparr>"

definition ex_bad_rollout :: rollout where
  "ex_bad_rollout = ex_rollout\<lparr>returns := Some (vector [1, 3])\<rparr>"

section \<open>Facts about arrays and keys\<close>

text \<open>
  Broadcasting two arrays of one shape is the elementwise operation: expanding an array
  to its own shape returns its elements.
\<close>

lemma concat_chunks:
  "length xs = n * k \<Longrightarrow> concat (map (\<lambda>i. take k (drop (i * k) xs)) [0..<n]) = xs"
proof (induction n arbitrary: xs)
  case 0
  then show ?case by simp
next
  case (Suc n)
  have len: "length (take (n * k) xs) = n * k"
    using Suc.prems by simp
  have same: "map (\<lambda>i. take k (drop (i * k) xs)) [0..<n]
            = map (\<lambda>i. take k (drop (i * k) (take (n * k) xs))) [0..<n]"
  proof (rule map_cong[OF refl])
    fix i assume "i \<in> set [0..<n]"
    then have "i * k + k \<le> n * k"
      by (metis Suc_leI atLeastLessThan_iff mult_Suc mult_le_mono1 add.commute set_upt)
    then show "take k (drop (i * k) xs) = take k (drop (i * k) (take (n * k) xs))"
      by (simp add: drop_take min_def)
  qed
  have last: "take k (drop (n * k) xs) = drop (n * k) xs"
    using Suc.prems by simp
  have "concat (map (\<lambda>i. take k (drop (i * k) xs)) [0..<Suc n])
      = concat (map (\<lambda>i. take k (drop (i * k) xs)) [0..<n]) @ take k (drop (n * k) xs)"
    by simp
  also have "\<dots>
      = concat (map (\<lambda>i. take k (drop (i * k) (take (n * k) xs))) [0..<n]) @ drop (n * k) xs"
    by (simp only: same last)
  also have "\<dots> = take (n * k) xs @ drop (n * k) xs"
    using Suc.IH[OF len] by simp
  finally show ?case by simp
qed

lemma expand_same: "length xs = prod_list sh \<Longrightarrow> expand sh sh xs = xs"
proof (induction sh arbitrary: xs)
  case Nil
  then show ?case by simp
next
  case (Cons s ss)
  let ?k = "prod_list ss"
  have row: "expand ss ss (take ?k (drop (i * ?k) xs)) = take ?k (drop (i * ?k) xs)"
    if "i < s" for i
  proof (rule Cons.IH)
    have "i * ?k + ?k \<le> s * ?k"
      using that by (metis Suc_leI mult_Suc mult_le_mono1 add.commute)
    then show "length (take ?k (drop (i * ?k) xs)) = ?k"
      using Cons.prems by simp
  qed
  have rows: "map (\<lambda>i. expand ss ss (take ?k (drop (i * ?k) xs))) [0..<s]
      = map (\<lambda>i. take ?k (drop (i * ?k) xs)) [0..<s]"
    by (rule map_cong[OF refl]) (simp add: row)
  have "expand (s # ss) (s # ss) xs
      = concat (map (\<lambda>i. expand ss ss (take ?k (drop (i * ?k) xs))) [0..<s])"
    by (simp add: Let_def)
  also have "\<dots> = concat (map (\<lambda>i. take ?k (drop (i * ?k) xs)) [0..<s])"
    by (simp only: rows)
  also have "\<dots> = xs"
    using Cons.prems by (intro concat_chunks) simp
  finally show ?case .
qed

lemma broadcast_rev_same: "broadcast_rev sh sh = Some sh"
  by (induction sh) simp_all

lemma broadcast_shapes_same: "broadcast_shapes sh sh = Some sh"
  by (simp add: broadcast_shapes_def broadcast_rev_same)

lemma tbinop_same_shape:
  assumes "shape a = shape b" "wf_tensor a" "wf_tensor b"
  shows "tbinop f a b = Inr \<lparr>shape = shape a, elems = map2 f (elems a) (elems b)\<rparr>"
  using assms
  by (simp add: tbinop_def broadcast_shapes_same broadcast_to_def expand_same wf_tensor_def)

lemma wf_column: "wf_tensor (column xs)"
  by (simp add: wf_tensor_def column_def)

lemma wf_reshape_col: "wf_tensor (reshape_col a)"
  by (simp add: wf_tensor_def reshape_col_def)

lemma tbinop_cols:
  assumes "length xs = n" "length ys = n"
  shows "tbinop f \<lparr>shape = [n, Suc 0], elems = xs\<rparr> \<lparr>shape = [n, Suc 0], elems = ys\<rparr>
       = Inr \<lparr>shape = [n, Suc 0], elems = map2 f xs ys\<rparr>"
  using assms tbinop_same_shape[of "\<lparr>shape = [n, Suc 0], elems = xs\<rparr>"
                                   "\<lparr>shape = [n, Suc 0], elems = ys\<rparr>" f]
  by (simp add: wf_tensor_def)

lemma tbinop_column:
  "length xs = length ys \<Longrightarrow> tbinop f (column xs) (column ys) = Inr (column (map2 f xs ys))"
  using tbinop_same_shape[of "column xs" "column ys" f]
  by (simp add: wf_column) (simp add: column_def)

lemma tmap_column: "tmap f (column xs) = column (map f xs)"
  by (simp add: tmap_def column_def)

lemma elems_column: "elems (column xs) = xs"
  by (simp add: column_def)

lemma random_split_2: "random_split k 2 ! 0 = Split k 2 0" "random_split k 2 ! 1 = Split k 2 1"
  by (simp_all add: random_split_def numeral_2_eq_2)

lemma random_split_3:
  "random_split k 3 ! 0 = Split k 3 0" "random_split k 3 ! 1 = Split k 3 1"
  "random_split k 3 ! 2 = Split k 3 2"
  by (simp_all add: random_split_def numeral_3_eq_3)

section \<open>The policy step\<close>

text \<open>
  On columns of one length the array computation of \<open>policy_loss\<close> is the formula of the
  specification, sample by sample; the closure then converts its two logs with
  \<^verbatim>\<open>float\<close>. On concrete parameters that gives the pair of the loss and the logs. On
  the tracer that \<^verbatim>\<open>jax.value_and_grad\<close> passes, the first conversion raises: the closure
  never returns there, whatever the rollout, and neither does \<open>update_policy\<close>.
\<close>

lemma tval_computed_from: "tval (computed_from ps y) = y"
  by (cases ps) simp_all

lemma py_float_traced: "py_float (computed_from (Tracer q) y) = Inl ConcretizationTypeError"
  by simp

lemma surrogate_elems:
  assumes "length olds = length advs" "length news = length advs"
  shows "map2 max (map2 (*) (map uminus advs) (map exp (map2 (-) news olds)))
           (map2 (*) (map uminus advs)
              (map (\<lambda>x. clamp (1 - eps) x (1 + eps)) (map exp (map2 (-) news olds))))
       = map (\<lambda>(a, old, new). spec_surrogate eps a old new) (zip advs (zip olds news))"
  using assms by (auto simp: list_eq_iff_nth_eq spec_surrogate_def Let_def)

lemma policy_loss_column:
  fixes self :: "('p, 'o, 'v, 'w) mtppo"
  assumes lp: "log_probs data = Some (column olds)"
      and adv: "advantages data = Some (column advs)"
      and len: "length olds = length advs"
      and new: "length (fresh_log_probs (apply_fn (policy self) (tval ps) (observations data)) k)
                  = length advs"
  shows "policy_loss self data k ps =
     bind_err (py_float (computed_from ps
                 (mean (elems (entropy (apply_fn (policy self) (tval ps) (observations data)))))))
       (\<lambda>logged_entropy.
     bind_err (py_float (computed_from ps
                 (mean (map (\<lambda>(a, old, new). spec_surrogate (clip_eps self) a old new)
                    (zip advs (zip olds (fresh_log_probs
                       (apply_fn (policy self) (tval ps) (observations data)) k)))))))
       (\<lambda>logged_pg.
     Inr (spec_policy_total_loss (clip_eps self) (entropy_coefficient self) advs olds
            (fresh_log_probs (apply_fn (policy self) (tval ps) (observations data)) k)
            (elems (entropy (apply_fn (policy self) (tval ps) (observations data)))),
          [''losses/entropy_loss'' \<mapsto> logged_entropy,
           ''losses/policy_loss'' \<mapsto> logged_pg])))"
proof -
  let ?d = "apply_fn (policy self) (tval ps) (observations data)"
  let ?news = "fresh_log_probs ?d k"
  let ?B = "length advs"
  let ?ratio = "map exp (map2 (-) ?news olds)"
  let ?lo = "1 - clip_eps self" and ?hi = "1 + clip_eps self"
  have news: "elems (log_prob ?d (sample ?d k)) = ?news"
    by (simp add: fresh_log_probs_def)
  have s1: "tsub (reshape_col (log_prob ?d (sample ?d k))) (column olds)
      = Inr \<lparr>shape = [?B, Suc 0], elems = map2 (-) ?news olds\<rparr>"
    using len new by (simp add: tsub_def reshape_col_def column_def news tbinop_cols)
  have s2: "tmul (tneg (column advs)) (texp \<lparr>shape = [?B, Suc 0], elems = map2 (-) ?news olds\<rparr>)
      = Inr \<lparr>shape = [?B, Suc 0], elems = map2 (*) (map uminus advs) ?ratio\<rparr>"
    using len new by (simp add: tmul_def tneg_def texp_def tmap_def column_def tbinop_cols)
  have s3: "tmul (tneg (column advs))
              (tclamp ?lo (texp \<lparr>shape = [?B, Suc 0], elems = map2 (-) ?news olds\<rparr>) ?hi)
      = Inr \<lparr>shape = [?B, Suc 0],
             elems = map2 (*) (map uminus advs) (map (\<lambda>x. clamp ?lo x ?hi) ?ratio)\<rparr>"
    using len new
    by (simp add: tmul_def tneg_def texp_def tclamp_def tmap_def column_def tbinop_cols)
  have s4: "tmaximum \<lparr>shape = [?B, Suc 0], elems = map2 (*) (map uminus advs) ?ratio\<rparr>
              \<lparr>shape = [?B, Suc 0],
               elems = map2 (*) (map uminus advs) (map (\<lambda>x. clamp ?lo x ?hi) ?ratio)\<rparr>
      = Inr \<lparr>shape = [?B, Suc 0],
             elems = map (\<lambda>(a, old, new). spec_surrogate (clip_eps self) a old new)
                       (zip advs (zip olds ?news))\<rparr>"
  proof -
    have "tmaximum \<lparr>shape = [?B, Suc 0], elems = map2 (*) (map uminus advs) ?ratio\<rparr>
              \<lparr>shape = [?B, Suc 0],
               elems = map2 (*) (map uminus advs) (map (\<lambda>x. clamp ?lo x ?hi) ?ratio)\<rparr>
      = Inr \<lparr>shape = [?B, Suc 0],
             elems = map2 max (map2 (*) (map uminus advs) ?ratio)
                       (map2 (*) (map uminus advs) (map (\<lambda>x. clamp ?lo x ?hi) ?ratio))\<rparr>"
      unfolding tmaximum_def using len new by (intro tbinop_cols) simp_all
    then show ?thesis
      by (simp only: surrogate_elems[OF len new])
  qed
  show ?thesis
    unfolding policy_loss_def sample_and_log_prob_def Let_def lp adv require_def
    by (simp only: bind_err_def option.case sum.case prod.case s1 s2 s3 s4 tmean_def
                   spec_policy_total_loss_def tensor.select_convs tval_computed_from)
qed

lemma policy_loss_concrete:
  fixes self :: "('p, 'o, 'v, 'w) mtppo"
  assumes "log_probs data = Some (column olds)"
      and "advantages data = Some (column advs)"
      and "length olds = length advs"
      and "length (fresh_log_probs (apply_fn (policy self) q (observations data)) k) = length advs"
  shows "policy_loss self data k (Concrete q) =
     Inr (spec_policy_objective self (observations data) advs olds k q,
          [''losses/entropy_loss'' \<mapsto>
             mean (elems (entropy (apply_fn (policy self) q (observations data)))),
           ''losses/policy_loss'' \<mapsto>
             mean (map (\<lambda>(a, old, new). spec_surrogate (clip_eps self) a old new)
                (zip advs (zip olds
                   (fresh_log_probs (apply_fn (policy self) q (observations data)) k))))])"
  using policy_loss_column[of data olds advs self "Concrete q" k] assms
  by (simp add: bind_err_def spec_policy_objective_def Let_def)

lemma policy_loss_traced:
  fixes self :: "('p, 'o, 'v, 'w) mtppo"
  assumes "log_probs data = Some (column olds)"
      and "advantages data = Some (column advs)"
      and "length olds = length advs"
      and "length (fresh_log_probs (apply_fn (policy self) q (observations data)) k) = length advs"
  shows "policy_loss self data k (Tracer q) = Inl ConcretizationTypeError"
  using policy_loss_column[of data olds advs self "Tracer q" k] assms
  by (simp add: bind_err_def)

lemma policy_loss_never_returns: "isl (policy_loss self data k (Tracer q))"
  unfolding policy_loss_def Let_def
  by (auto simp: bind_err_def split: prod.splits sum.splits)

lemma update_policy_never_returns: "isl (update_policy grad self data)"
proof -
  obtain e where "policy_loss self data (random_split (key self) 2 ! 1)
                    (Tracer (params (policy self))) = Inl e"
    using policy_loss_never_returns[of self data "random_split (key self) 2 ! 1"
            "params (policy self)"]
    by (auto simp: isl_def)
  then show ?thesis
    unfolding update_policy_def value_and_grad_def Let_def by (simp add: bind_err_def)
qed

lemma update_policy_traced:
  fixes self :: "('p::plus, 'o, 'v, 'w) mtppo"
  assumes "log_probs data = Some (column olds)"
      and "advantages data = Some (column advs)"
      and "length olds = length advs"
      and "length (fresh_log_probs (apply_fn (policy self) (params (policy self))
                     (observations data)) (Split (key self) 2 1)) = length advs"
  shows "update_policy grad self data = Inl ConcretizationTypeError"
  unfolding update_policy_def value_and_grad_def Let_def random_split_2
            policy_loss_traced[OF assms]
  by (simp add: bind_err_def)

section \<open>The value step\<close>

text \<open>
  The closure \<open>value_function_loss\<close> raises at its assertion: the call gives two
  positional arguments to a function of one, for every rollout and every parameter,
  whatever the shapes. So \<open>update_value_function\<close> never returns, and neither do
  \<open>update_inner\<close> and \<open>update\<close>. The statements after the assertion compute, on columns
  of one length, the value loss of the specification.
\<close>

lemma value_function_loss_raises: "value_function_loss self data ps = Inl TypeError"
  by (simp add: value_function_loss_def call_two_positional_def bind_err_def)

lemma update_value_function_raises: "update_value_function grad self data = Inl TypeError"
  by (simp add: update_value_function_def value_and_grad_def value_function_loss_raises
                bind_err_def)

lemma update_inner_unfold:
  "update_inner pgrad vgrad self data =
     (case update_policy pgrad self data of
        Inl e \<Rightarrow> Inl e
      | Inr (self1, policy_logs) \<Rightarrow>
          (case update_value_function vgrad self1 data of
             Inl e \<Rightarrow> Inl e
           | Inr (self2, vf_logs) \<Rightarrow> Inr (self2, policy_logs ++ vf_logs)))"
  by (simp add: update_inner_def bind_err_def split: sum.splits prod.splits)

lemma update_asserts:
  "update pgrad vgrad self (ReplayBufferSamples b)
     = Inl (AssertionError ''MTPPO does not support replay buffer samples.'')"
  "log_probs r = None \<Longrightarrow>
     update pgrad vgrad self (Rollout r)
       = Inl (AssertionError ''Rollout policy log probs must have been recorded.'')"
  "log_probs r \<noteq> None \<Longrightarrow> advantages r = None \<Longrightarrow>
     update pgrad vgrad self (Rollout r) = Inl (AssertionError ''GAE must be enabled for MTPPO.'')"
  "log_probs r \<noteq> None \<Longrightarrow> advantages r \<noteq> None \<Longrightarrow> returns r = None \<Longrightarrow>
     update pgrad vgrad self (Rollout r)
       = Inl (AssertionError ''Returns must be computed for MTPPO.'')"
  "log_probs r \<noteq> None \<Longrightarrow> advantages r \<noteq> None \<Longrightarrow> returns r \<noteq> None \<Longrightarrow>
     update pgrad vgrad self (Rollout r) = update_inner pgrad vgrad self r"
  by (auto simp: update_def)

lemma update_inner_never_returns: "isl (update_inner pgrad vgrad self data)"
  unfolding update_inner_unfold update_value_function_raises
  by (simp split: sum.splits prod.splits)

lemma update_never_returns: "isl (update pgrad vgrad self d)"
  using update_inner_never_returns[of pgrad vgrad self]
  by (simp add: update_def split: batch.splits)

lemma value_elems:
  assumes "length olds = length rets" "length news = length rets"
  shows "map2 max (map (\<lambda>x. x ^ 2) (map2 (-) news rets))
           (map (\<lambda>x. x ^ 2)
              (map2 (-) (map2 (+) olds (map (\<lambda>x. clamp (- eps) x eps) (map2 (-) news olds))) rets))
       = map (\<lambda>(new, old, ret).
                let clipped_value = old + clamp (- eps) (new - old) eps
                in max ((new - ret) ^ 2) ((clipped_value - ret) ^ 2))
           (zip news (zip olds rets))"
  using assms by (auto simp: list_eq_iff_nth_eq Let_def)

lemma value_elems_unclipped:
  "map (\<lambda>x. x ^ 2) (map2 (-) news rets) = map (\<lambda>(new, ret). (new - ret) ^ 2) (zip news rets)"
  by (auto simp: list_eq_iff_nth_eq)

lemma value_function_loss_body_column:
  fixes self :: "('p, 'o, 'v, 'w) mtppo"
  assumes ret: "returns data = Some (column rets)"
      and old: "clip_vf_loss self \<Longrightarrow> values' data = column olds \<and> length olds = length rets"
      and len: "length news = length rets"
  shows "value_function_loss_body self data ps (column news) =
     bind_err (py_float (computed_from ps
                 (spec_value_loss (clip_vf_loss self) (clip_eps self) news olds rets)))
       (\<lambda>logged_loss.
     bind_err (py_float (computed_from ps (mean news))) (\<lambda>logged_values.
     Inr (vf_coefficient self *
            spec_value_loss (clip_vf_loss self) (clip_eps self) news olds rets,
          [''losses/value_function'' \<mapsto> logged_loss,
           ''losses/values'' \<mapsto> logged_values])))"
proof (cases "clip_vf_loss self")
  case True
  let ?eps = "clip_eps self"
  from old[OF True] have vals: "values' data = column olds" and lo: "length olds = length rets"
    by simp_all
  have s1: "tsub (column news) (column rets) = Inr (column (map2 (-) news rets))"
    unfolding tsub_def using len by (rule tbinop_column)
  have s2: "tsub (column news) (column olds) = Inr (column (map2 (-) news olds))"
    unfolding tsub_def using len lo by (intro tbinop_column) simp
  have s3: "tadd (column olds) (tclamp (- ?eps) (column (map2 (-) news olds)) ?eps)
      = Inr (column (map2 (+) olds (map (\<lambda>x. clamp (- ?eps) x ?eps) (map2 (-) news olds))))"
    unfolding tadd_def tclamp_def tmap_column using len lo by (intro tbinop_column) simp
  have s4: "tsub (column (map2 (+) olds (map (\<lambda>x. clamp (- ?eps) x ?eps) (map2 (-) news olds))))
              (column rets)
      = Inr (column (map2 (-)
               (map2 (+) olds (map (\<lambda>x. clamp (- ?eps) x ?eps) (map2 (-) news olds))) rets))"
    unfolding tsub_def using len lo by (intro tbinop_column) simp
  have s5: "tmaximum (tsquare (column (map2 (-) news rets)))
              (tsquare (column (map2 (-)
                 (map2 (+) olds (map (\<lambda>x. clamp (- ?eps) x ?eps) (map2 (-) news olds))) rets)))
      = Inr (column (map (\<lambda>(new, old, ret).
                let clipped_value = old + clamp (- ?eps) (new - old) ?eps
                in max ((new - ret) ^ 2) ((clipped_value - ret) ^ 2))
           (zip news (zip olds rets))))"
    unfolding tmaximum_def tsquare_def tmap_column value_elems[OF lo len, symmetric]
    using len lo by (intro tbinop_column) simp
  show ?thesis
    unfolding value_function_loss_body_def Let_def ret vals require_def
    by (simp only: bind_err_def option.case sum.case s1 s2 s3 s4 s5 True if_True tmean_def
                   elems_column spec_value_loss_def)
next
  case False
  have s1: "tsub (column news) (column rets) = Inr (column (map2 (-) news rets))"
    unfolding tsub_def using len by (rule tbinop_column)
  show ?thesis
    unfolding value_function_loss_body_def Let_def ret require_def
    by (simp only: bind_err_def option.case sum.case s1 False if_False tmean_def elems_column
                   spec_value_loss_def tsquare_def tmap_column value_elems_unclipped)
qed

lemma value_function_loss_body_concrete:
  fixes self :: "('p, 'o, 'v, 'w) mtppo"
  assumes "returns data = Some (column rets)"
      and "clip_vf_loss self \<longrightarrow> values' data = column olds \<and> length olds = length rets"
      and "length news = length rets"
  shows "value_function_loss_body self data (Concrete q) (column news) =
     Inr (vf_coefficient self *
            spec_value_loss (clip_vf_loss self) (clip_eps self) news olds rets,
          [''losses/value_function'' \<mapsto>
             spec_value_loss (clip_vf_loss self) (clip_eps self) news olds rets,
           ''losses/values'' \<mapsto> mean news])"
  using value_function_loss_body_column[of data rets self olds news "Concrete q"] assms
  by (simp add: bind_err_def)

section \<open>Facts about initialization\<close>

text \<open>
  The two outcomes of \<open>initialize\<close>.
\<close>

lemma length_sample_n: "length (sample_n draw n g) = n"
  by (induction n arbitrary: g) (simp_all add: Let_def split: prod.splits)

lemma stack_batch_size: "hd (shape (stack ts)) = length ts"
  by (cases ts) (simp_all add: stack_def)

lemma initialize_non_box:
  assumes "\<not> is_Box (action_space env) \<or> \<not> is_Box (observation_space env)"
  shows "initialize lib g config env seed
           = Inl (AssertionError ''Non-box spaces currently not supported.'')"
  using assms by (auto simp: initialize_def)

lemma initialize_box:
  assumes "is_Box (action_space env)" "is_Box (observation_space env)"
  shows "initialize lib g config env seed =
     Inr \<lparr>num_tasks = mtppo_config.num_tasks config,
          policy = create
            (net_apply (ContinuousActionPolicy lib (prod_list (box_shape (action_space env)))
                          (policy_config config)))
            (net_init (ContinuousActionPolicy lib (prod_list (box_shape (action_space env)))
                          (policy_config config))
               (Split (PRNGKey seed) 3 1) (dummy_obs lib g config env))
            (policy_optimizer lib (policy_config config)),
          value_function = create
            (net_apply (ValueFunction lib (vf_config config)))
            (net_init (ValueFunction lib (vf_config config))
               (Split (PRNGKey seed) 3 2) (dummy_obs lib g config env))
            (vf_optimizer lib (vf_config config)),
          key = Split (PRNGKey seed) 3 0,
          gamma = mtppo_config.gamma config,
          clip_eps = mtppo_config.clip_eps config,
          clip_vf_loss = mtppo_config.clip_vf_loss config,
          entropy_coefficient = mtppo_config.entropy_coefficient config,
          vf_coefficient = mtppo_config.vf_coefficient config,
          target_kl = mtppo_config.target_kl config\<rparr>"
  unfolding initialize_def Let_def random_split_3 dummy_obs_def using assms by simp

lemma initialize_vf_coefficient:
  assumes "initialize lib g config env seed = Inr s"
  shows "vf_coefficient s = mtppo_config.vf_coefficient config"
proof (cases "is_Box (action_space env) \<and> is_Box (observation_space env)")
  case True
  then show ?thesis
    using assms by (auto simp: initialize_box)
next
  case False
  then show ?thesis
    using assms initialize_non_box[of env lib g config seed] by auto
qed

section \<open>The instance, evaluated\<close>

text \<open>
  On the instance the arithmetic of both closures goes through, so the policy step raises
  at its first \<^verbatim>\<open>float\<close> and the value step at its assertion call. Run on concrete
  parameters instead of tracers, the policy closure gives the loss \<open>- q / 200\<close> at the
  parameter \<open>q\<close>, and the statements after the assertion give the scaled value loss 0
  and log the value loss 53/25.
\<close>

lemma ex_fresh:
  "fresh_log_probs (apply_fn (policy ex_state) q (observations ex_rollout))
     (Split (key ex_state) 2 1) = [- 2, - 2]"
  by (simp add: fresh_log_probs_def ex_state_def create_def ex_policy_apply_def ex_rollout_def
                column_def tmap_def vector_def)

lemma ex_lengths:
  "log_probs ex_rollout = Some (column [- 2, - 2])"
  "advantages ex_rollout = Some (column [1, - 1])"
  "length [- 2, - 2 :: real] = length [1, - 1 :: real]"
  "length (fresh_log_probs (apply_fn (policy ex_state) q (observations ex_rollout))
             (Split (key ex_state) 2 1)) = length [1, - 1 :: real]"
  unfolding ex_fresh by (simp_all add: ex_rollout_def)

lemma ex_policy_loss_traced:
  "policy_loss ex_state ex_rollout (Split (key ex_state) 2 1) (Tracer q)
     = Inl ConcretizationTypeError"
  by (rule policy_loss_traced[OF ex_lengths])

lemma ex_policy_loss_concrete:
  "policy_loss ex_state ex_rollout (Split (key ex_state) 2 1) (Concrete q) =
     Inr (- q / 200, [''losses/entropy_loss'' \<mapsto> q, ''losses/policy_loss'' \<mapsto> 0])"
proof -
  have e: "elems (entropy (apply_fn (policy ex_state) q (observations ex_rollout))) = [q, q]"
    by (simp add: ex_state_def create_def ex_policy_apply_def ex_rollout_def column_def vector_def)
  have t: "spec_policy_objective ex_state (observations ex_rollout) [1, - 1] [- 2, - 2]
             (Split (key ex_state) 2 1) q = - q / 200"
    unfolding spec_policy_objective_def Let_def ex_fresh e
    by (simp add: spec_policy_total_loss_def spec_surrogate_def mean_def clamp_def ex_state_def)
  have m: "mean (map (\<lambda>(a, old, new). spec_surrogate (clip_eps ex_state) a old new)
                  (zip [1, - 1] (zip [- 2, - 2] [- 2, - 2]))) = 0"
    by (simp add: spec_surrogate_def mean_def clamp_def ex_state_def)
  have mq: "mean [q, q] = q"
    by (simp add: mean_def)
  show ?thesis
    using policy_loss_concrete[OF ex_lengths, of q]
    unfolding ex_fresh e t m mq .
qed

lemma ex_update_policy:
  "update_policy ex_grad ex_state ex_rollout = Inl ConcretizationTypeError"
  by (rule update_policy_traced[OF ex_lengths])

lemma ex_bad_update_policy:
  "update_policy ex_grad ex_state ex_bad_rollout = Inl ConcretizationTypeError"
proof -
  have "fresh_log_probs (apply_fn (policy ex_state) (params (policy ex_state))
            (observations ex_bad_rollout)) (Split (key ex_state) 2 1) = [- 2, - 2]"
    using ex_fresh[of "params (policy ex_state)"] by (simp add: ex_bad_rollout_def)
  then show ?thesis
    by (intro update_policy_traced[where olds = "[- 2, - 2]" and advs = "[1, - 1]"])
       (simp_all add: ex_bad_rollout_def ex_rollout_def)
qed

lemma ex_returns: "returns ex_rollout = Some (column [1, 3])"
  by (simp add: ex_rollout_def)



lemma ex_new_values:
  "apply_fn (value_function ex_state) (params (value_function ex_state))
     (observations ex_rollout) = column [1, 2]"
  by (simp add: ex_state_def create_def ex_vf_apply_def ex_rollout_def tmap_def column_def)

lemma ex_value_loss_body_concrete:
  "value_function_loss_body ex_state ex_rollout (Concrete 1) (column [1, 2]) =
     Inr (0, [''losses/value_function'' \<mapsto> 53 / 25, ''losses/values'' \<mapsto> 3 / 2])"
proof -
  have v: "clip_vf_loss ex_state \<longrightarrow>
             values' ex_rollout = column [0, 0] \<and> length [0, 0 :: real] = length [1, 3 :: real]"
    by (simp add: ex_rollout_def)
  have l: "length [1, 2 :: real] = length [1, 3 :: real]"
    by simp
  have c: "vf_coefficient ex_state = 0"
    by (simp add: ex_state_def)
  have s: "spec_value_loss (clip_vf_loss ex_state) (clip_eps ex_state) [1, 2] [0, 0] [1, 3]
             = 53 / 25"
    by (simp add: spec_value_loss_def ex_state_def mean_def clamp_def power2_eq_square)
  have m: "mean [1, 2] = 3 / 2"
    by (simp add: mean_def)
  show ?thesis
    using value_function_loss_body_concrete[OF ex_returns v l, of 1]
    unfolding c s m mult_zero_left .
qed

lemma ex_sample:
  "sample (apply_fn (policy ex_state) (params (policy ex_state)) (column [1, 2]))
     (Split (key ex_state) 2 1) = column [2, 2]"
  by (simp add: ex_state_def create_def ex_policy_apply_def tmap_def column_def)

lemma ex_dummy_obs:
  "dummy_obs ex_lib 0 (MTPPOConfig 2 (99 / 100) () ()) ex_env = \<lparr>shape = [2, 1], elems = [- 1, 0]\<rparr>"
  by (simp add: dummy_obs_def MTPPOConfig_def ex_lib_def ex_env_def stack_def numeral_2_eq_2)

lemma ex_initialize:
  "initialize ex_lib 0 (MTPPOConfig 2 (99 / 100) () ()) ex_env 1 = Inr ex_state"
proof -
  have "is_Box (action_space ex_env)" "is_Box (observation_space ex_env)"
    by (simp_all add: ex_env_def)
  then show ?thesis
    by (simp add: initialize_box) (simp add: MTPPOConfig_def ex_lib_def ex_state_def)
qed

section \<open>The claims\<close>

text \<open>
  C1. The closure of the policy step builds the total loss of the claim, then converts its
  two logs with \<^verbatim>\<open>float\<close>. Under \<^verbatim>\<open>jax.value_and_grad\<close> the values converted are
  tracers, so the closure raises: on the instance \<open>update_policy\<close> returns no loss, no
  logs and no gradient, and leaves the policy as it was.
\<close>

theorem update_policy_raises_at_float:
  "log_probs ex_rollout = Some (column [- 2, - 2]) \<and>
   advantages ex_rollout = Some (column [1, - 1]) \<and>
   policy_loss ex_state ex_rollout (random_split (key ex_state) 2 ! 1)
     (Tracer (params (policy ex_state))) = Inl ConcretizationTypeError \<and>
   update_policy ex_grad ex_state ex_rollout = Inl ConcretizationTypeError"
  unfolding random_split_2 ex_policy_loss_traced ex_update_policy
  by (simp add: ex_rollout_def)

text \<open>
  C2. The closure of the value step calls the shape assertion with two positional
  arguments, which raises before any loss is computed: on the instance, where the value
  estimates and the returns have one shape, \<open>update_value_function\<close> returns no loss, no
  logs and no gradient.
\<close>

theorem update_value_function_raises_at_assertion_call:
  "returns ex_rollout = Some (column [1, 3]) \<and>
   shape (apply_fn (value_function ex_state) (params (value_function ex_state))
            (observations ex_rollout)) = shape (column [1, 3]) \<and>
   value_function_loss ex_state ex_rollout (Tracer (params (value_function ex_state)))
     = Inl TypeError \<and>
   update_value_function ex_grad ex_state ex_rollout = Inl TypeError"
  unfolding ex_new_values value_function_loss_raises update_value_function_raises
  by (simp add: ex_returns column_def)

text \<open>
  C3. The four assertions of \<open>update\<close> are as the claim says (\<open>update_asserts\<close>). A
  rollout that passes them goes on to the inner update, which raises in the policy step:
  on the instance, with log-probabilities, advantages and returns present and of the
  right shape, \<open>update\<close> returns no container and no logs.
\<close>

theorem update_raises_on_valid_rollout:
  "log_probs ex_rollout \<noteq> None \<and> advantages ex_rollout \<noteq> None \<and>
   returns ex_rollout \<noteq> None \<and>
   update ex_grad ex_grad ex_state (Rollout ex_rollout :: unit batch)
     = Inl ConcretizationTypeError"
proof -
  have p: "log_probs ex_rollout \<noteq> None" "advantages ex_rollout \<noteq> None"
    "returns ex_rollout \<noteq> None"
    by (simp_all add: ex_rollout_def)
  have "update_inner ex_grad ex_grad ex_state ex_rollout = Inl ConcretizationTypeError"
    unfolding update_inner_unfold ex_update_policy by simp
  then show ?thesis
    using p by (simp add: update_asserts(5))
qed

text \<open>
  C4. Within one inner update the value step is not reached: the policy step raises first,
  and the inner update raises with it. Run on any state, the original one or another, the
  value step raises at its assertion call, so there is no value-function gradient and no
  value log to compare.
\<close>

theorem value_step_not_reached:
  "update_inner ex_grad ex_grad ex_state ex_rollout = Inl ConcretizationTypeError \<and>
   update_value_function ex_grad ex_state ex_rollout = Inl TypeError \<and>
   update_value_function ex_grad
     (ex_state\<lparr>policy := (policy ex_state)\<lparr>step := 1, params := 1 / 2000\<rparr>,
               key := Split (key ex_state) 2 0\<rparr>) ex_rollout = Inl TypeError"
  unfolding update_inner_unfold ex_update_policy update_value_function_raises
  by simp



text \<open>
  C6. \<open>sample_action\<close> returns the container with only its key replaced, by the first
  key of the split of the old key, and the action drawn with the second key of that split
  from the distribution of the current policy parameters at the observation.
\<close>

theorem sample_action_frame:
  "sample_action self observation =
     (self\<lparr>key := random_split (key self) 2 ! 0\<rparr>,
      sample (apply_fn (policy self) (params (policy self)) observation)
        (random_split (key self) 2 ! 1)) \<and>
   policy (fst (sample_action self observation)) = policy self \<and>
   value_function (fst (sample_action self observation)) = value_function self \<and>
   fst (sample_action self observation) = self\<lparr>key := key (fst (sample_action self observation))\<rparr>"
  by (simp add: sample_action_def jit_sample_action_def device_get_def Let_def)

theorem sample_action_frame_witness:
  "sample_action ex_state (column [1, 2]) =
     (ex_state\<lparr>key := Split (Split (PRNGKey 1) 3 0) 2 0\<rparr>, column [2, 2])"
proof -
  have k: "key ex_state = Split (PRNGKey 1) 3 0"
    by (simp add: ex_state_def)
  from sample_action_frame[of ex_state "column [1, 2]"]
  have "sample_action ex_state (column [1, 2]) =
     (ex_state\<lparr>key := random_split (key ex_state) 2 ! 0\<rparr>,
      sample (apply_fn (policy ex_state) (params (policy ex_state)) (column [1, 2]))
        (random_split (key ex_state) 2 ! 1))"
    by (rule conjunct1)
  then show ?thesis
    unfolding random_split_2 ex_sample unfolding k .
qed

text \<open>
  C7. \<open>eval_action\<close> is the mode of the distribution of the policy at the observation:
  two containers whose policies have the same network and the same parameters give the
  same action on the same observation, whatever else differs between them, the key
  included; it returns an action only, so no container and no key comes back changed.
\<close>

theorem eval_action_deterministic:
  assumes "apply_fn (policy s1) = apply_fn (policy s2)"
      and "params (policy s1) = params (policy s2)"
  shows "eval_action s1 observation = eval_action s2 observation \<and>
         eval_action s1 observation
           = mode (apply_fn (policy s1) (params (policy s1)) observation) \<and>
         eval_action (s1\<lparr>key := k\<rparr>) observation = eval_action s1 observation"
  using assms by (simp add: eval_action_def jit_eval_action_def device_get_def Let_def)

theorem eval_action_deterministic_witness:
  "key ex_state \<noteq> PRNGKey 7 \<and>
   eval_action ex_state (column [1, 2])
     = eval_action (ex_state\<lparr>policy := (policy ex_state)\<lparr>step := 5\<rparr>, key := PRNGKey 7,
                             vf_coefficient := 1\<rparr>) (column [1, 2]) \<and>
   eval_action (ex_state\<lparr>key := PRNGKey 7\<rparr>) (column [1, 2]) = column [0, 0] \<and>
   eval_action ex_state (column [1, 2]) = column [0, 0]"
proof -
  have m: "mode (apply_fn (policy ex_state) (params (policy ex_state)) (column [1, 2]))
             = column [0, 0]"
    by (simp add: ex_state_def create_def ex_policy_apply_def tmap_def column_def)
  have k: "key ex_state \<noteq> PRNGKey 7"
    by (simp add: ex_state_def)
  have a: "apply_fn (policy ex_state)
             = apply_fn (policy (ex_state\<lparr>policy := (policy ex_state)\<lparr>step := 5\<rparr>,
                                          key := PRNGKey 7, vf_coefficient := 1\<rparr>))"
    and b: "params (policy ex_state)
             = params (policy (ex_state\<lparr>policy := (policy ex_state)\<lparr>step := 5\<rparr>,
                                        key := PRNGKey 7, vf_coefficient := 1\<rparr>))"
    by simp_all
  note t = eval_action_deterministic[OF a b, of "column [1, 2]" "PRNGKey 7", unfolded m]
  show ?thesis
    using t k by metis
qed

text \<open>
  C8. \<open>initialize\<close> raises an assertion when the action space or the observation space
  is not a box. When both are boxes it returns a container whose key, policy parameters
  and value parameters come from the three keys of one three-way split of the key of the
  seed (the first for the algorithm, the second for the policy network, the third for the
  value network), both networks being initialized on one dummy batch: the stack of as many
  draws from the observation space as there are tasks.
\<close>

theorem initialize_spaces:
  "(\<not> is_Box (action_space env) \<or> \<not> is_Box (observation_space env) \<longrightarrow>
      initialize lib g config env seed
        = Inl (AssertionError ''Non-box spaces currently not supported.'')) \<and>
   (is_Box (action_space env) \<and> is_Box (observation_space env) \<longrightarrow>
      (\<exists>s. initialize lib g config env seed = Inr s \<and>
           key s = random_split (PRNGKey seed) 3 ! 0 \<and>
           params (policy s) =
             net_init (ContinuousActionPolicy lib (prod_list (box_shape (action_space env)))
                         (policy_config config))
               (random_split (PRNGKey seed) 3 ! 1) (dummy_obs lib g config env) \<and>
           params (value_function s) =
             net_init (ValueFunction lib (vf_config config))
               (random_split (PRNGKey seed) 3 ! 2) (dummy_obs lib g config env))) \<and>
   dummy_obs lib g config env =
     stack (sample_n (space_sample lib (observation_space env))
              (nat (mtppo_config.num_tasks config)) g) \<and>
   length (sample_n (space_sample lib (observation_space env))
              (nat (mtppo_config.num_tasks config)) g) = nat (mtppo_config.num_tasks config) \<and>
   hd (shape (dummy_obs lib g config env)) = nat (mtppo_config.num_tasks config)"
proof (intro conjI impI)
  assume "\<not> is_Box (action_space env) \<or> \<not> is_Box (observation_space env)"
  then show "initialize lib g config env seed
        = Inl (AssertionError ''Non-box spaces currently not supported.'')"
    by (rule initialize_non_box)
next
  assume "is_Box (action_space env) \<and> is_Box (observation_space env)"
  then have a: "is_Box (action_space env)" and b: "is_Box (observation_space env)"
    by simp_all
  show "\<exists>s. initialize lib g config env seed = Inr s \<and>
           key s = random_split (PRNGKey seed) 3 ! 0 \<and>
           params (policy s) =
             net_init (ContinuousActionPolicy lib (prod_list (box_shape (action_space env)))
                         (policy_config config))
               (random_split (PRNGKey seed) 3 ! 1) (dummy_obs lib g config env) \<and>
           params (value_function s) =
             net_init (ValueFunction lib (vf_config config))
               (random_split (PRNGKey seed) 3 ! 2) (dummy_obs lib g config env)"
    unfolding initialize_box[OF a b] random_split_3 by (simp add: create_def)
qed (simp_all add: dummy_obs_def length_sample_n stack_batch_size)

theorem initialize_spaces_witness:
  "initialize ex_lib 0 (MTPPOConfig 2 (99 / 100) () ())
     (ex_env\<lparr>action_space := Discrete 4\<rparr>) 1
     = Inl (AssertionError ''Non-box spaces currently not supported.'') \<and>
   initialize ex_lib 0 (MTPPOConfig 2 (99 / 100) () ()) ex_env 1 = Inr ex_state \<and>
   key ex_state = Split (PRNGKey 1) 3 0 \<and>
   dummy_obs ex_lib 0 (MTPPOConfig 2 (99 / 100) () ()) ex_env
     = \<lparr>shape = [2, 1], elems = [- 1, 0]\<rparr> \<and>
   hd (shape (dummy_obs ex_lib 0 (MTPPOConfig 2 (99 / 100) () ()) ex_env)) = 2"
proof -
  have nb: "\<not> is_Box (action_space (ex_env\<lparr>action_space := Discrete 4\<rparr>))"
    by simp
  have n: "nat (mtppo_config.num_tasks (MTPPOConfig 2 (99 / 100) () ())) = 2"
    by (simp add: MTPPOConfig_def)
  have k: "key ex_state = Split (PRNGKey 1) 3 0"
    by (simp add: ex_state_def)
  note t1 = initialize_spaces[of "ex_env\<lparr>action_space := Discrete 4\<rparr>" ex_lib 0
                                 "MTPPOConfig 2 (99 / 100) () ()" 1]
  note t2 = initialize_spaces[of ex_env ex_lib 0 "MTPPOConfig 2 (99 / 100) () ()" 1]
  from t1 nb have f: "initialize ex_lib 0 (MTPPOConfig 2 (99 / 100) () ())
     (ex_env\<lparr>action_space := Discrete 4\<rparr>) 1
     = Inl (AssertionError ''Non-box spaces currently not supported.'')"
    by blast
  from t2 have "hd (shape (dummy_obs ex_lib 0 (MTPPOConfig 2 (99 / 100) () ()) ex_env))
                  = nat (mtppo_config.num_tasks (MTPPOConfig 2 (99 / 100) () ()))"
    by blast
  then have h: "hd (shape (dummy_obs ex_lib 0 (MTPPOConfig 2 (99 / 100) () ()) ex_env)) = 2"
    unfolding n .
  show ?thesis
    using f ex_initialize k ex_dummy_obs h by blast
qed

text \<open>
  C9. The container of the default configuration has value-loss coefficient 0, but its
  value step raises at the assertion call before the loss is scaled or logged: on the
  instance no gradient, zero or not, is applied to the value function, and no
  \<open>losses/value_function\<close> entry is produced.
\<close>

theorem default_value_step_raises:
  "initialize ex_lib 0 (MTPPOConfig 2 (99 / 100) () ()) ex_env 1 = Inr ex_state \<and>
   vf_coefficient ex_state = 0 \<and>
   update_value_function ex_grad ex_state ex_rollout = Inl TypeError \<and>
   (\<forall>s logs. update_value_function ex_grad ex_state ex_rollout \<noteq> Inr (s, logs))"
  unfolding update_value_function_raises
  by (simp add: ex_initialize) (simp add: ex_state_def)

text \<open>
  C10. Neither step returns a container: the policy step raises for every state and
  rollout, the value step raises \<^verbatim>\<open>TypeError\<close> for every state and rollout, and so do the
  inner update and \<open>update\<close> for every batch. No container with a replaced field or an
  advanced key comes out of an update call.
\<close>

theorem update_steps_never_return:
  "isl (update_policy pgrad self data) \<and>
   update_value_function vgrad self data = Inl TypeError \<and>
   isl (update_inner pgrad vgrad self data) \<and>
   isl (update pgrad vgrad self d)"
  by (simp add: update_policy_never_returns update_value_function_raises
                update_inner_never_returns update_never_returns)

end
